theory Spec2Isabelle
  imports Main "HOL-Library.Sublist"
begin

section \<open>Python values\<close>

text \<open>
  The request parameters are \<^verbatim>\<open>Dict[str, Any]\<close> and the flow's result is \<^verbatim>\<open>Any\<close>, so the
  embedding works over a datatype of the Python values the server can meet: the values a JSON
  body parses to (\<^verbatim>\<open>None\<close>, \<^verbatim>\<open>bool\<close>, \<^verbatim>\<open>int\<close>, \<^verbatim>\<open>float\<close>, \<^verbatim>\<open>str\<close>, \<^verbatim>\<open>list\<close>, \<^verbatim>\<open>dict\<close> with string keys in
  insertion order) and \<open>PObj\<close>, an instance of any other class.

  \<^item> A \<^verbatim>\<open>float\<close> is carried by the text \<^verbatim>\<open>repr\<close> gives it (\<^verbatim>\<open>repr\<close> is injective on floats).
  \<^item> \<open>PObj c a s r\<close> is an object whose type name is \<open>c\<close>, whose \<^verbatim>\<open>__dict__\<close> is \<open>a\<close> (\<open>None\<close> for a
    class with slots), and for which \<^verbatim>\<open>str\<close> gives \<open>s\<close> and \<^verbatim>\<open>repr\<close> gives \<open>r\<close>. Its class defines none of
    \<^verbatim>\<open>__bool__\<close>, \<^verbatim>\<open>__len__\<close>, \<^verbatim>\<open>__getitem__\<close>, and its attributes are the entries of \<^verbatim>\<open>__dict__\<close>
    (a \<^verbatim>\<open>datetime\<close>, a \<^verbatim>\<open>UUID\<close>, a pydantic model such as \<^verbatim>\<open>GoogleSuiteFlowState\<close>).
  \<^item> A character is one code point below 256.
\<close>

datatype pyval =
    PNone
  | PBool bool
  | PInt int
  | PFloat string
  | PStr string
  | PList "pyval list"
  | PDict "(string \<times> pyval) list"
  | PObj string "(string \<times> pyval) list option" string string

text \<open>
  Exceptions are values. \<open>ValueError\<close> stands for the class and its subclasses (what
  \<^verbatim>\<open>except ValueError\<close> catches), \<open>TypeError\<close> likewise, \<open>OtherException\<close> for every other
  subclass of \<^verbatim>\<open>Exception\<close>. The string is what \<^verbatim>\<open>str(e)\<close> gives.
\<close>

datatype exn = ValueError string | TypeError string | OtherException string

fun exn_str :: "exn \<Rightarrow> string" where
  "exn_str (ValueError m) = m"
| "exn_str (TypeError m) = m"
| "exn_str (OtherException m) = m"

definition squote :: char where "squote = CHR 0x27"
definition dquote :: char where "dquote = CHR 0x22"
definition backslash :: char where "backslash = CHR 0x5C"

definition hexdigit :: "nat \<Rightarrow> char" where
  "hexdigit n = ''0123456789abcdef'' ! (n mod 16)"

fun string_of_nat :: "nat \<Rightarrow> string" where
  "string_of_nat n =
     (if n < 10 then [hexdigit n] else string_of_nat (n div 10) @ [hexdigit (n mod 10)])"

definition string_of_int :: "int \<Rightarrow> string" where
  "string_of_int i =
     (if i < 0 then CHR ''-'' # string_of_nat (nat (- i)) else string_of_nat (nat i))"

text \<open>
  \<^verbatim>\<open>repr\<close> of a string: single quotes unless the text has a single quote and no double quote;
  the quote and the backslash escaped, tab, newline and carriage return by letter, every other
  non-printable character as \<^verbatim>\<open>\xNN\<close>. Below 256 the non-printable code points are 0 to 31, 127 to
  160 and 173.
\<close>

definition printable :: "char \<Rightarrow> bool" where
  "printable c =
     (let n = (of_char c :: nat)
      in 32 \<le> n \<and> n \<noteq> 127 \<and> \<not> (128 \<le> n \<and> n \<le> 160) \<and> n \<noteq> 173)"

definition repr_char :: "char \<Rightarrow> char \<Rightarrow> string" where
  "repr_char q c =
     (if c = q \<or> c = backslash then [backslash, c]
      else if c = CHR 0x09 then [backslash, CHR ''t'']
      else if c = CHR 0x0A then [backslash, CHR ''n'']
      else if c = CHR 0x0D then [backslash, CHR ''r'']
      else if printable c then [c]
      else [backslash, CHR ''x'', hexdigit (of_char c div 16), hexdigit (of_char c mod 16)])"

definition repr_str :: "string \<Rightarrow> string" where
  "repr_str s =
     (let q = (if squote \<in> set s \<and> dquote \<notin> set s then dquote else squote)
      in q # concat (map (repr_char q) s) @ [q])"

fun join :: "string \<Rightarrow> string list \<Rightarrow> string" where
  "join sep [] = []"
| "join sep [x] = x"
| "join sep (x # y # ys) = x @ sep @ join sep (y # ys)"

fun py_repr :: "pyval \<Rightarrow> string" where
  "py_repr PNone = ''None''"
| "py_repr (PBool b) = (if b then ''True'' else ''False'')"
| "py_repr (PInt i) = string_of_int i"
| "py_repr (PFloat r) = r"
| "py_repr (PStr s) = repr_str s"
| "py_repr (PList xs) = ''['' @ join '', '' (map py_repr xs) @ '']''"
| "py_repr (PDict d) =
     ''{'' @ join '', '' (map (\<lambda>kv. repr_str (fst kv) @ '': '' @ py_repr (snd kv)) d) @ ''}''"
| "py_repr (PObj c a s r) = r"

text \<open>
  \<open>py_str\<close> is \<^verbatim>\<open>str(v)\<close>, which is also what an f-string field \<^verbatim>\<open>{v}\<close> inserts; \<open>truthy\<close> is the
  test \<^verbatim>\<open>if v:\<close>.
\<close>

fun py_str :: "pyval \<Rightarrow> string" where
  "py_str (PStr s) = s"
| "py_str (PObj c a s r) = s"
| "py_str v = py_repr v"

fun truthy :: "pyval \<Rightarrow> bool" where
  "truthy PNone = False"
| "truthy (PBool b) = b"
| "truthy (PInt i) = (i \<noteq> 0)"
| "truthy (PFloat r) = (r \<noteq> ''0.0'' \<and> r \<noteq> ''-0.0'')"
| "truthy (PStr s) = (s \<noteq> [])"
| "truthy (PList xs) = (xs \<noteq> [])"
| "truthy (PDict d) = (d \<noteq> [])"
| "truthy (PObj c a s r) = True"

fun type_name :: "pyval \<Rightarrow> string" where
  "type_name PNone = ''NoneType''"
| "type_name (PBool b) = ''bool''"
| "type_name (PInt i) = ''int''"
| "type_name (PFloat r) = ''float''"
| "type_name (PStr s) = ''str''"
| "type_name (PList xs) = ''list''"
| "type_name (PDict d) = ''dict''"
| "type_name (PObj c a s r) = c"

text \<open>
  \<^verbatim>\<open>len(v)\<close>, the slice \<^verbatim>\<open>v[:n]\<close> and \<^verbatim>\<open>sep.join(vs)\<close> raise on the values that do not support them;
  the messages are CPython's. (Slicing a \<^verbatim>\<open>dict\<close> raises \<^verbatim>\<open>TypeError\<close> up to Python 3.11 and
  \<^verbatim>\<open>KeyError\<close> from 3.12 on: in both cases an \<^verbatim>\<open>Exception\<close> that is not a \<^verbatim>\<open>ValueError\<close>.)
\<close>

fun py_len :: "pyval \<Rightarrow> exn + nat" where
  "py_len (PStr s) = Inr (length s)"
| "py_len (PList xs) = Inr (length xs)"
| "py_len (PDict d) = Inr (length d)"
| "py_len v =
     Inl (TypeError (''object of type '' @ [squote] @ type_name v @ [squote] @ '' has no len()''))"

fun py_slice_to :: "nat \<Rightarrow> pyval \<Rightarrow> exn + pyval" where
  "py_slice_to n (PStr s) = Inr (PStr (take n s))"
| "py_slice_to n (PList xs) = Inr (PList (take n xs))"
| "py_slice_to n (PDict d) =
     Inl (TypeError (''unhashable type: '' @ [squote] @ ''slice'' @ [squote]))"
| "py_slice_to n v =
     Inl (TypeError ([squote] @ type_name v @ [squote] @ '' object is not subscriptable''))"

fun str_join_from :: "nat \<Rightarrow> string \<Rightarrow> pyval list \<Rightarrow> exn + string" where
  "str_join_from i sep [] = Inr []"
| "str_join_from i sep (PStr s # vs) =
     (case str_join_from (Suc i) sep vs of
        Inl e \<Rightarrow> Inl e
      | Inr r \<Rightarrow> Inr (if vs = [] then s else s @ sep @ r))"
| "str_join_from i sep (v # vs) =
     Inl (TypeError (''sequence item '' @ string_of_nat i @ '': expected str instance, ''
                     @ type_name v @ '' found''))"

definition str_join :: "string \<Rightarrow> pyval list \<Rightarrow> exn + string" where
  "str_join sep vs = str_join_from 0 sep vs"

text \<open>\<^verbatim>\<open>d.get(k, dflt)\<close> on a dict.\<close>

definition dict_get :: "(string \<times> pyval) list \<Rightarrow> string \<Rightarrow> pyval \<Rightarrow> pyval" where
  "dict_get d k dflt = (case map_of d k of None \<Rightarrow> dflt | Some v \<Rightarrow> v)"

definition is_dict :: "pyval \<Rightarrow> bool" where
  "is_dict v = (case v of PDict d \<Rightarrow> True | _ \<Rightarrow> False)"

definition is_list :: "pyval \<Rightarrow> bool" where
  "is_list v = (case v of PList xs \<Rightarrow> True | _ \<Rightarrow> False)"

definition is_str :: "pyval \<Rightarrow> bool" where
  "is_str v = (case v of PStr s \<Rightarrow> True | _ \<Rightarrow> False)"

text \<open>The entries of a value known to be a dict, the items of one known to be a list.\<close>

definition dict_items :: "pyval \<Rightarrow> (string \<times> pyval) list" where
  "dict_items v = (case v of PDict d \<Rightarrow> d | _ \<Rightarrow> [])"

definition list_items :: "pyval \<Rightarrow> pyval list" where
  "list_items v = (case v of PList xs \<Rightarrow> xs | _ \<Rightarrow> [])"

subsection \<open>The JSON encoder\<close>

text \<open>
  \<^verbatim>\<open>json.dumps(v, default=str)\<close> with the default separators and \<^verbatim>\<open>ensure_ascii\<close>: every character
  outside the printable ASCII range is escaped, and a value that is not JSON-serialisable is
  replaced by its \<^verbatim>\<open>str\<close>, encoded as a JSON string.
\<close>

definition json_char :: "char \<Rightarrow> string" where
  "json_char c =
     (if c = dquote \<or> c = backslash then [backslash, c]
      else if c = CHR 0x0A then [backslash, CHR ''n'']
      else if c = CHR 0x0D then [backslash, CHR ''r'']
      else if c = CHR 0x09 then [backslash, CHR ''t'']
      else if c = CHR 0x0C then [backslash, CHR ''f'']
      else if c = CHR 0x08 then [backslash, CHR ''b'']
      else if 32 \<le> (of_char c :: nat) \<and> (of_char c :: nat) \<le> 126 then [c]
      else [backslash, CHR ''u'', CHR ''0'', CHR ''0'',
            hexdigit (of_char c div 16), hexdigit (of_char c mod 16)])"

definition json_str :: "string \<Rightarrow> string" where
  "json_str s = dquote # concat (map json_char s) @ [dquote]"

definition json_float :: "string \<Rightarrow> string" where
  "json_float r =
     (if r = ''nan'' then ''NaN'' else if r = ''inf'' then ''Infinity''
      else if r = ''-inf'' then ''-Infinity'' else r)"

fun json_dumps :: "pyval \<Rightarrow> string" where
  "json_dumps PNone = ''null''"
| "json_dumps (PBool b) = (if b then ''true'' else ''false'')"
| "json_dumps (PInt i) = string_of_int i"
| "json_dumps (PFloat r) = json_float r"
| "json_dumps (PStr s) = json_str s"
| "json_dumps (PList xs) = ''['' @ join '', '' (map json_dumps xs) @ '']''"
| "json_dumps (PDict d) =
     ''{'' @ join '', '' (map (\<lambda>kv. json_str (fst kv) @ '': '' @ json_dumps (snd kv)) d) @ ''}''"
| "json_dumps (PObj c a s r) = json_str s"

subsection \<open>The limit on the conversion of ints\<close>

text \<open>
  \<open>string_of_int\<close>, and with it \<open>py_repr\<close>, \<open>py_str\<close> and \<open>json_dumps\<close>, give the text that
  \<^verbatim>\<open>repr\<close>, \<^verbatim>\<open>str\<close> and \<^verbatim>\<open>json.dumps\<close> return when they return. CPython refuses to convert an int of
  more than 4300 decimal digits (the default of \<^verbatim>\<open>sys.int_max_str_digits\<close>): \<^verbatim>\<open>str\<close>, \<^verbatim>\<open>repr\<close>, an
  f-string field and \<^verbatim>\<open>json.dumps\<close> then raise the \<^verbatim>\<open>ValueError\<close> \<open>int_limit_error\<close>, also when the
  int sits inside a list or a dict. \<open>renders v\<close> says that \<open>v\<close> holds no such int.

  \<open>fmt v\<close> is the f-string field \<^verbatim>\<open>{v}\<close> (and \<^verbatim>\<open>str(v)\<close>) with this failure; \<open>f_string vs text\<close> is
  an f-string whose fields are the values \<open>vs\<close> and whose text, when every field is converted,
  is \<open>text\<close>. The fields are converted from left to right and all fail with the same
  exception. \<open>dumps v\<close> is \<^verbatim>\<open>json.dumps(v, default=str)\<close>.
\<close>

definition int_limit_error :: exn where
  "int_limit_error = ValueError (''Exceeds the limit (4300 digits) for integer string ''
     @ ''conversion; use sys.set_int_max_str_digits() to increase the limit'')"

definition int_max_str_digits :: nat where
  "int_max_str_digits = 4300"

fun renders :: "pyval \<Rightarrow> bool" where
  "renders (PInt i) = (\<bar>i\<bar> < 10 ^ int_max_str_digits)"
| "renders (PList xs) = list_all renders xs"
| "renders (PDict d) = list_all (\<lambda>kv. renders (snd kv)) d"
| "renders v = True"

definition fmt :: "pyval \<Rightarrow> exn + string" where
  "fmt v = (if renders v then Inr (py_str v) else Inl int_limit_error)"

definition f_string :: "pyval list \<Rightarrow> string \<Rightarrow> exn + string" where
  "f_string vs text = (if list_all renders vs then Inr text else Inl int_limit_error)"

definition dumps :: "pyval \<Rightarrow> exn + string" where
  "dumps v = (if renders v then Inr (json_dumps v) else Inl int_limit_error)"

section \<open>Tool registry\<close>

text \<open>
  \<^verbatim>\<open>TOOL_TO_CREW_MAPPING\<close>, the dict of lines 42 to 79, as an association list in insertion
  order; \<^verbatim>\<open>tool_id in TOOL_TO_CREW_MAPPING\<close> is \<open>map_of TOOL_TO_CREW_MAPPING tool_id \<noteq> None\<close>,
  and \<^verbatim>\<open>list(TOOL_TO_CREW_MAPPING.keys())\<close> is \<open>tool_ids\<close>.
\<close>

definition TOOL_TO_CREW_MAPPING :: "(string \<times> string) list" where
  "TOOL_TO_CREW_MAPPING =
    [(''google_calendar_create'', ''EVENT_MANAGEMENT_FLOW''),
     (''google_calendar_list'', ''EVENT_MANAGEMENT_FLOW''),
     (''google_calendar_get'', ''EVENT_MANAGEMENT_FLOW''),
     (''google_calendar_update'', ''EVENT_MANAGEMENT_FLOW''),
     (''google_calendar_delete'', ''EVENT_MANAGEMENT_FLOW''),
     (''google_calendar_quick_add'', ''EVENT_MANAGEMENT_FLOW''),
     (''google_calendar_freebusy'', ''EVENT_MANAGEMENT_FLOW''),
     (''gmail_send'', ''EMAIL_MANAGEMENT_FLOW''),
     (''gmail_read'', ''EMAIL_MANAGEMENT_FLOW''),
     (''gmail_search'', ''EMAIL_MANAGEMENT_FLOW''),
     (''gmail_draft'', ''EMAIL_MANAGEMENT_FLOW''),
     (''gmail_labels'', ''EMAIL_MANAGEMENT_FLOW''),
     (''gmail_reply'', ''EMAIL_MANAGEMENT_FLOW''),
     (''google_drive_upload'', ''DRIVE_MANAGEMENT_FLOW''),
     (''google_drive_download'', ''DRIVE_MANAGEMENT_FLOW''),
     (''google_drive_list'', ''DRIVE_MANAGEMENT_FLOW''),
     (''google_drive_share'', ''DRIVE_MANAGEMENT_FLOW''),
     (''google_drive_create_folder'', ''DRIVE_MANAGEMENT_FLOW''),
     (''google_drive_move'', ''DRIVE_MANAGEMENT_FLOW''),
     (''google_drive_delete'', ''DRIVE_MANAGEMENT_FLOW''),
     (''google_sheets_read'', ''SHEETS_MANAGEMENT_FLOW''),
     (''google_sheets_write'', ''SHEETS_MANAGEMENT_FLOW''),
     (''google_sheets_update'', ''SHEETS_MANAGEMENT_FLOW''),
     (''google_sheets_append'', ''SHEETS_MANAGEMENT_FLOW''),
     (''google_docs_read'', ''DOCS_MANAGEMENT_FLOW''),
     (''google_docs_write'', ''DOCS_MANAGEMENT_FLOW''),
     (''google_docs_create'', ''DOCS_MANAGEMENT_FLOW'')]"

definition tool_ids :: "string list" where
  "tool_ids = map fst TOOL_TO_CREW_MAPPING"

section \<open>Parameter to query conversion\<close>

text \<open>
  \<open>convert_params_to_user_query\<close> (lines 207 to 337) returns \<open>Inr\<close> the sentence, or \<open>Inl\<close> the
  exception that escapes it. The three branches that can raise a \<^verbatim>\<open>TypeError\<close> are definitions
  of their own. \<open>fallback_query\<close> is the text of the sentence of the last line.
  \<open>append_field query pre v post\<close> is the statement \<^verbatim>\<open>query += f"{pre}{v}{post}"\<close>.
\<close>

definition fallback_query :: "string \<Rightarrow> (string \<times> pyval) list \<Rightarrow> string" where
  "fallback_query tool_id params =
     ''Execute '' @ tool_id @ '' with parameters: '' @ json_dumps (PDict params)"

definition append_field :: "string \<Rightarrow> string \<Rightarrow> pyval \<Rightarrow> string \<Rightarrow> exn + string" where
  "append_field query pre v post =
     (case fmt v of Inl e \<Rightarrow> Inl e | Inr t \<Rightarrow> Inr (query @ pre @ t @ post))"

text \<open>\<^verbatim>\<open>x.get('dateTime', '') if isinstance(x, dict) else str(x)\<close>, lines 215 and 216.\<close>

definition date_time_of :: "pyval \<Rightarrow> exn + pyval" where
  "date_time_of x =
     (if is_dict x then Inr (dict_get (dict_items x) ''dateTime'' (PStr []))
      else (case fmt x of Inl e \<Rightarrow> Inl e | Inr t \<Rightarrow> Inr (PStr t)))"

definition calendar_create_query :: "(string \<times> pyval) list \<Rightarrow> exn + string" where
  "calendar_create_query params =
    (let summary = dict_get params ''summary'' (PStr ''event'');
         start = dict_get params ''start'' (PDict []);
         end' = dict_get params ''end'' (PDict [])
     in case date_time_of start of
          Inl e \<Rightarrow> Inl e
        | Inr start_time \<Rightarrow>
     (case date_time_of end' of
          Inl e \<Rightarrow> Inl e
        | Inr end_time \<Rightarrow>
     (let description = dict_get params ''description'' (PStr []);
          attendees = dict_get params ''attendees'' (PList [])
      in case f_string [summary] (''Create calendar event: '' @ py_str summary) of
           Inl e \<Rightarrow> Inl e
         | Inr query \<Rightarrow>
      (case (if truthy start_time then append_field query '' from '' start_time []
             else Inr query) of
           Inl e \<Rightarrow> Inl e
         | Inr query \<Rightarrow>
      (case (if truthy end_time then append_field query '' to '' end_time []
             else Inr query) of
           Inl e \<Rightarrow> Inl e
         | Inr query \<Rightarrow>
      (case (if truthy description
             then append_field query '' with description: '' description []
             else Inr query) of
           Inl e \<Rightarrow> Inl e
         | Inr query \<Rightarrow>
             if truthy attendees
             then (if is_list attendees
                   then (case str_join '', '' (list_items attendees) of
                           Inl e \<Rightarrow> Inl e
                         | Inr joined \<Rightarrow> Inr (query @ '' with attendees: '' @ joined))
                   else append_field query '' with attendees: '' attendees [])
             else Inr query))))))"

definition gmail_send_query :: "(string \<times> pyval) list \<Rightarrow> exn + string" where
  "gmail_send_query params =
    (let to = dict_get params ''to'' (PStr []);
         subject = dict_get params ''subject'' (PStr []);
         body = dict_get params ''body'' (PStr []);
         cc = dict_get params ''cc'' PNone;
         bcc = dict_get params ''bcc'' PNone
     in case f_string [to, subject]
               (''Send email to '' @ py_str to @ '' with subject '' @ [squote]
                @ py_str subject @ [squote]) of
          Inl e \<Rightarrow> Inl e
        | Inr query \<Rightarrow>
     (case (if truthy body
            then (case py_len body of
                    Inl e \<Rightarrow> Inl e
                  | Inr n \<Rightarrow>
                      if n > 100
                      then (case py_slice_to 100 body of
                              Inl e \<Rightarrow> Inl e
                            | Inr b \<Rightarrow> append_field query '' and body: '' b ''...'')
                      else append_field query '' and body: '' body [])
            else Inr query) of
          Inl e \<Rightarrow> Inl e
        | Inr query \<Rightarrow>
     (case (if truthy cc then append_field query '', CC: '' cc [] else Inr query) of
          Inl e \<Rightarrow> Inl e
        | Inr query \<Rightarrow>
            if truthy bcc then append_field query '', BCC: '' bcc [] else Inr query)))"

definition gmail_reply_query :: "(string \<times> pyval) list \<Rightarrow> exn + string" where
  "gmail_reply_query params =
    (let original_from = dict_get params ''original_from_email'' (PStr []);
         original_subject = dict_get params ''original_subject'' (PStr []);
         reply_body = dict_get params ''reply_body'' (PStr [])
     in case f_string [original_from, original_subject]
               (''Reply to email from '' @ py_str original_from @ '' with subject ''
                @ [squote] @ py_str original_subject @ [squote]) of
          Inl e \<Rightarrow> Inl e
        | Inr query \<Rightarrow>
            (case py_slice_to 100 reply_body of
               Inl e \<Rightarrow> Inl e
             | Inr b \<Rightarrow> append_field query '' and reply: '' b ''...''))"

definition convert_params_to_user_query :: "string \<Rightarrow> (string \<times> pyval) list \<Rightarrow> exn + string" where
  "convert_params_to_user_query tool_id params =
    (if tool_id = ''google_calendar_create'' then calendar_create_query params
     else if tool_id = ''google_calendar_list'' then
       (let time_min = dict_get params ''timeMin'' (PStr ''now'');
            time_max = dict_get params ''timeMax'' (PStr ''future'');
            max_results = dict_get params ''maxResults'' (PInt 10)
        in f_string [time_min, time_max, max_results]
             (''List calendar events from '' @ py_str time_min @ '' to '' @ py_str time_max
              @ '', maximum '' @ py_str max_results @ '' results''))
     else if tool_id = ''google_calendar_get'' then
       (let event_id = dict_get params ''eventId'' (PStr [])
        in f_string [event_id] (''Get calendar event with ID: '' @ py_str event_id))
     else if tool_id = ''google_calendar_update'' then
       (let event_id = dict_get params ''eventId'' (PStr []);
            summary = dict_get params ''summary'' (PStr [])
        in f_string [event_id, summary]
             (''Update calendar event '' @ py_str event_id @ '' with title: '' @ py_str summary))
     else if tool_id = ''google_calendar_delete'' then
       (let event_id = dict_get params ''eventId'' (PStr [])
        in f_string [event_id] (''Delete calendar event with ID: '' @ py_str event_id))
     else if tool_id = ''gmail_send'' then gmail_send_query params
     else if tool_id = ''gmail_read'' then
       (let hours = dict_get params ''hours'' (PInt 24);
            unread_only = dict_get params ''unread_only'' (PBool True);
            max_results = dict_get params ''maxResults'' (PInt 10)
        in f_string [hours, max_results]
             (''Read '' @ (if truthy unread_only then ''unread'' else ''recent'')
              @ '' emails from the last '' @ py_str hours @ '' hours, maximum ''
              @ py_str max_results @ '' results''))
     else if tool_id = ''gmail_search'' then
       (let query_param = dict_get params ''query'' (PStr [])
        in f_string [query_param] (''Search emails with query: '' @ py_str query_param))
     else if tool_id = ''gmail_reply'' then gmail_reply_query params
     else if tool_id = ''google_drive_upload'' then
       (let file_name = (if truthy (dict_get params ''fileName'' PNone)
                         then dict_get params ''fileName'' PNone
                         else dict_get params ''name'' (PStr ''file''));
            folder_id = dict_get params ''folderId'' (PStr [])
        in if truthy folder_id
           then f_string [file_name, folder_id]
                  (''Upload file '' @ py_str file_name @ '' to Google Drive folder ''
                   @ py_str folder_id)
           else f_string [file_name] (''Upload file '' @ py_str file_name @ '' to Google Drive''))
     else if tool_id = ''google_drive_list'' then
       (let folder_id = dict_get params ''folderId'' (PStr []);
            query = dict_get params ''query'' (PStr [])
        in if truthy query
           then f_string [query] (''List files in Google Drive matching: '' @ py_str query)
           else if truthy folder_id
           then f_string [folder_id] (''List files in Google Drive folder '' @ py_str folder_id)
           else Inr ''List files in Google Drive'')
     else if tool_id = ''google_drive_download'' then
       (let file_id = dict_get params ''fileId'' (PStr [])
        in f_string [file_id] (''Download file from Google Drive with ID: '' @ py_str file_id))
     else if tool_id = ''google_drive_share'' then
       (let file_id = dict_get params ''fileId'' (PStr []);
            email = dict_get params ''email'' (PStr [])
        in f_string [file_id, email]
             (''Share Google Drive file '' @ py_str file_id @ '' with '' @ py_str email))
     else if tool_id = ''google_drive_create_folder'' then
       (let folder_name = dict_get params ''name'' (PStr ''New Folder'');
            parent_id = dict_get params ''parentId'' (PStr [])
        in if truthy parent_id
           then f_string [folder_name, parent_id]
                  (''Create folder '' @ [squote] @ py_str folder_name @ [squote]
                   @ '' in Google Drive folder '' @ py_str parent_id)
           else f_string [folder_name]
                  (''Create folder '' @ [squote] @ py_str folder_name @ [squote]
                   @ '' in Google Drive''))
     else if tool_id = ''google_sheets_read'' then
       (let spreadsheet_id = dict_get params ''spreadsheetId'' (PStr []);
            range_name = dict_get params ''range'' (PStr [])
        in f_string [spreadsheet_id, range_name]
             (''Read data from Google Sheets '' @ py_str spreadsheet_id @ '' range ''
              @ py_str range_name))
     else if tool_id = ''google_sheets_write'' then
       (let spreadsheet_id = dict_get params ''spreadsheetId'' (PStr []);
            range_name = dict_get params ''range'' (PStr [])
        in f_string [spreadsheet_id, range_name]
             (''Write data to Google Sheets '' @ py_str spreadsheet_id @ '' range ''
              @ py_str range_name))
     else if tool_id = ''google_docs_read'' then
       (let document_id = dict_get params ''documentId'' (PStr [])
        in f_string [document_id] (''Read Google Docs document '' @ py_str document_id))
     else if tool_id = ''google_docs_create'' then
       (let title = dict_get params ''title'' (PStr ''New Document'')
        in f_string [title] (''Create Google Docs document with title: '' @ py_str title))
     else (case dumps (PDict params) of
             Inl e \<Rightarrow> Inl e
           | Inr js \<Rightarrow> Inr (''Execute '' @ tool_id @ '' with parameters: '' @ js)))"

section \<open>Result parsing\<close>

text \<open>
  \<open>parse_crewai_result\<close> (lines 343 to 374) returns a dict in every branch, so its result is
  the list of entries. \<^verbatim>\<open>hasattr(v, a)\<close> holds for an object with a \<^verbatim>\<open>__dict__\<close> that has the
  entry \<open>a\<close>; the values of the built-in types have neither a \<^verbatim>\<open>response\<close> attribute nor a
  \<^verbatim>\<open>__dict__\<close>.
\<close>

definition hasattr :: "pyval \<Rightarrow> string \<Rightarrow> bool" where
  "hasattr v a = (case v of PObj c (Some attrs) s r \<Rightarrow> map_of attrs a \<noteq> None | _ \<Rightarrow> False)"

definition getattr :: "pyval \<Rightarrow> string \<Rightarrow> pyval" where
  "getattr v a = (case v of PObj c (Some attrs) s r \<Rightarrow> dict_get attrs a PNone | _ \<Rightarrow> PNone)"

definition has_dict :: "pyval \<Rightarrow> bool" where
  "has_dict v = (case v of PObj c (Some attrs) s r \<Rightarrow> True | _ \<Rightarrow> False)"

definition obj_dict :: "pyval \<Rightarrow> (string \<times> pyval) list" where
  "obj_dict v = (case v of PObj c (Some attrs) s r \<Rightarrow> attrs | _ \<Rightarrow> [])"

definition parse_crewai_result :: "pyval \<Rightarrow> (string \<times> pyval) list" where
  "parse_crewai_result result =
    (if is_str result then
       [(''data'', result), (''status'', PStr ''success''), (''message'', result)]
     else if hasattr result ''response'' then
       (let response = getattr result ''response'';
            response_str = (if truthy response then py_str response else py_str result)
        in [(''data'', PStr response_str), (''status'', PStr ''success''),
            (''message'', PStr response_str)])
     else if is_dict result then dict_items result
     else if has_dict result then
       [(''data'', if has_dict result then PDict (obj_dict result) else PStr (py_str result)),
        (''status'', PStr ''success''),
        (''message'', PStr (py_str result))]
     else
       [(''data'', PStr (py_str result)), (''status'', PStr ''success''),
        (''message'', PStr (py_str result))])"

section \<open>Flow cache\<close>

text \<open>
  The module-level dict \<^verbatim>\<open>_flow_cache\<close> is the field \<open>flow_cache\<close> of the state. What the
  server does to the world outside is recorded, in order, in \<open>trace\<close>: a read of an environment
  variable, a call of the constructor \<^verbatim>\<open>GoogleSuiteFlow(name, api_key)\<close> with the exception it
  raised if any, and a call of \<^verbatim>\<open>flow.kickoff(inputs)\<close>. Output on the console is left out.

  What the world answers is a parameter, \<open>ext\<close>, and may depend on everything that happened
  before: the value of an environment variable, whether the constructor raises, what
  \<^verbatim>\<open>kickoff\<close> returns or raises, the clock readings and the text of a traceback. A constructed
  flow carries the length of the trace at its construction, which no other construction
  shares, so two handles are the same object exactly when they are equal.
\<close>

record inputs =
  user_query :: string
  crew_name :: string
  flow_name :: string

datatype flow = GoogleSuiteFlow nat string string

datatype event =
    Getenv string
  | Construct string string "exn option"
  | Kickoff flow inputs

record ext =
  os_getenv :: "event list \<Rightarrow> string \<Rightarrow> string option"
  flow_init :: "event list \<Rightarrow> string \<Rightarrow> string \<Rightarrow> exn option"
  flow_kickoff :: "event list \<Rightarrow> flow \<Rightarrow> inputs \<Rightarrow> exn + pyval"
  elapsed_seconds :: "event list \<Rightarrow> string"
  utcnow_isoformat :: "event list \<Rightarrow> string"
  format_exc :: "exn \<Rightarrow> string"

record state =
  flow_cache :: "string \<rightharpoonup> flow"
  trace :: "event list"

text \<open>The state after import: an empty cache, nothing done yet.\<close>

definition initial_state :: state where
  "initial_state = \<lparr>flow_cache = Map.empty, trace = []\<rparr>"

definition cache_key :: string where
  "cache_key = ''google_suite''"

text \<open>
  \<open>get_google_suite_flow\<close> (lines 165 to 201) returns the handle or the \<^verbatim>\<open>ValueError\<close> it raises,
  and the new state. \<^verbatim>\<open>not api_key\<close> holds for an unset variable and for the empty string.
\<close>

definition get_google_suite_flow :: "ext \<Rightarrow> state \<Rightarrow> (exn + flow) \<times> state" where
  "get_google_suite_flow x s =
    (case flow_cache s cache_key of
       Some f \<Rightarrow> (Inr f, s)
     | None \<Rightarrow>
        (let api_key = os_getenv x (trace s) ''OPENAI_API_KEY'';
             s1 = s\<lparr>trace := trace s @ [Getenv ''OPENAI_API_KEY'']\<rparr>
         in case api_key of
              None \<Rightarrow> (Inl (ValueError ''OPENAI_API_KEY not set in environment variables''), s1)
            | Some k \<Rightarrow>
                if k = [] then
                  (Inl (ValueError ''OPENAI_API_KEY not set in environment variables''), s1)
                else
                  (let outcome = flow_init x (trace s1) ''Google Suite Flow'' k;
                       s2 = s1\<lparr>trace := trace s1 @ [Construct ''Google Suite Flow'' k outcome]\<rparr>
                   in case outcome of
                        Some e \<Rightarrow>
                          (Inl (ValueError (''Flow initialization failed: '' @ exn_str e)), s2)
                      | None \<Rightarrow>
                          (let f = GoogleSuiteFlow (length (trace s1)) ''Google Suite Flow'' k;
                               s3 = s2\<lparr>flow_cache := (flow_cache s2)(cache_key \<mapsto> f)\<rparr>
                           in (Inr f, s3)))))"

section \<open>API endpoints\<close>

text \<open>
  The pydantic models are records (\<open>output'\<close> is the field \<^verbatim>\<open>output\<close>). \<open>execute_try\<close> is the
  body of the \<^verbatim>\<open>try\<close> block of \<^verbatim>\<open>execute_google_suite_tool\<close> (lines 417 to 489), returning the
  response or the exception that leaves the block; \<open>execute_google_suite_tool\<close> adds the two
  \<^verbatim>\<open>except\<close> branches (lines 491 to 509). \<open>resolve_user_query\<close> is lines 438 to 440. The slice
  of line 477 is part of the block because it raises when the message of the parsed result is
  not a string or a list.

  \<open>handle\<close> is the routing: a handler that returns is answered with status 200, and none of
  the three handlers lets an \<^verbatim>\<open>Exception\<close> escape. \<open>serve\<close> handles a sequence of requests, one after
  the other.
\<close>

record ToolExecuteRequest =
  toolId :: string
  params :: "(string \<times> pyval) list"
  userQuery :: "string option"

record ToolExecuteResponse =
  success :: bool
  output' :: "pyval option"
  error :: "string option"
  metadata :: "(string \<times> pyval) list option"

record HealthResponse =
  status :: string
  service :: string
  timestamp :: string
  version :: string

record ToolListResponse =
  tools :: "string list"
  mappings :: "(string \<times> string) list"
  total :: nat

definition health_check :: "ext \<Rightarrow> state \<Rightarrow> HealthResponse" where
  "health_check x s =
     \<lparr>status = ''healthy'', service = ''CrewAI Tool Wrapper API'',
      timestamp = utcnow_isoformat x (trace s), version = ''1.0.0''\<rparr>"

definition list_available_tools :: ToolListResponse where
  "list_available_tools =
     \<lparr>tools = map fst TOOL_TO_CREW_MAPPING, mappings = TOOL_TO_CREW_MAPPING,
      total = length TOOL_TO_CREW_MAPPING\<rparr>"

definition resolve_user_query :: "ToolExecuteRequest \<Rightarrow> exn + string" where
  "resolve_user_query request =
     (case userQuery request of
        None \<Rightarrow> convert_params_to_user_query (toolId request) (params request)
      | Some q \<Rightarrow>
          if q = [] then convert_params_to_user_query (toolId request) (params request)
          else Inr q)"

definition execute_try :: "ext \<Rightarrow> ToolExecuteRequest \<Rightarrow> state \<Rightarrow> (exn + ToolExecuteResponse) \<times> state" where
  "execute_try x request s =
    (let tool_id = toolId request in
     if map_of TOOL_TO_CREW_MAPPING tool_id = None then
       (let error_msg = ''Unknown tool ID: '' @ tool_id @ ''. Available tools: ''
                        @ py_str (PList (map PStr tool_ids))
        in (Inr \<lparr>success = False, output' = None, error = Some error_msg,
                 metadata = Some [(''available_tools'', PList (map PStr tool_ids))]\<rparr>, s))
     else
       case resolve_user_query request of
         Inl e \<Rightarrow> (Inl e, s)
       | Inr uq \<Rightarrow>
          (let crew = (case map_of TOOL_TO_CREW_MAPPING tool_id of
                         None \<Rightarrow> ''GOOGLE_SUITE_FLOW'' | Some c \<Rightarrow> c)
           in case get_google_suite_flow x s of
                (Inl e, s1) \<Rightarrow> (Inl e, s1)
              | (Inr flow, s1) \<Rightarrow>
                 (let inp = \<lparr>user_query = uq, crew_name = crew, flow_name = crew\<rparr>;
                      s2 = s1\<lparr>trace := trace s1 @ [Kickoff flow inp]\<rparr>
                  in case flow_kickoff x (trace s1) flow inp of
                       Inl e \<Rightarrow> (Inl e, s2)
                     | Inr result \<Rightarrow>
                        (let parsed_result = parse_crewai_result result;
                             execution_time = elapsed_seconds x (trace s2)
                         in case py_slice_to 200 (dict_get parsed_result ''message'' (PStr ''N/A'')) of
                              Inl e \<Rightarrow> (Inl e, s2)
                            | Inr preview \<Rightarrow>
                               (Inr \<lparr>success = True, output' = Some (PDict parsed_result),
                                     error = None,
                                     metadata = Some
                                       [(''tool_id'', PStr tool_id),
                                        (''crew_name'', PStr crew),
                                        (''execution_time_seconds'', PFloat execution_time),
                                        (''timestamp'', PStr (utcnow_isoformat x (trace s2)))]\<rparr>,
                                s2)))))"

definition execute_google_suite_tool :: "ext \<Rightarrow> ToolExecuteRequest \<Rightarrow> state \<Rightarrow> ToolExecuteResponse \<times> state" where
  "execute_google_suite_tool x request s =
    (case execute_try x request s of
       (Inr response, s') \<Rightarrow> (response, s')
     | (Inl (ValueError m), s') \<Rightarrow>
         (\<lparr>success = False, output' = None,
           error = Some (''Configuration error: '' @ m), metadata = None\<rparr>, s')
     | (Inl e, s') \<Rightarrow>
         (\<lparr>success = False, output' = None,
           error = Some (''Error executing tool '' @ toolId request @ '': '' @ exn_str e),
           metadata = Some [(''traceback'', PStr (format_exc x e))]\<rparr>, s'))"

datatype request = GetHealth | GetToolList | PostExecute ToolExecuteRequest

datatype body =
    HealthBody HealthResponse
  | ToolListBody ToolListResponse
  | ExecuteBody ToolExecuteResponse

fun handle :: "ext \<Rightarrow> request \<Rightarrow> state \<Rightarrow> (nat \<times> body) \<times> state" where
  "handle x GetHealth s = ((200, HealthBody (health_check x s)), s)"
| "handle x GetToolList s = ((200, ToolListBody list_available_tools), s)"
| "handle x (PostExecute r) s =
     (case execute_google_suite_tool x r s of (resp, s') \<Rightarrow> ((200, ExecuteBody resp), s'))"

fun serve :: "ext \<Rightarrow> request list \<Rightarrow> state \<Rightarrow> state" where
  "serve x [] s = s"
| "serve x (r # rs) s = serve x rs (snd (handle x r s))"

section \<open>Auxiliary definitions for the statements\<close>

text \<open>
  The tool identifiers that \<open>convert_params_to_user_query\<close> compares its argument with, in the
  order of its branches.
\<close>

definition ruled_tools :: "string list" where
  "ruled_tools =
     [''google_calendar_create'', ''google_calendar_list'', ''google_calendar_get'',
      ''google_calendar_update'', ''google_calendar_delete'', ''gmail_send'', ''gmail_read'',
      ''gmail_search'', ''gmail_reply'', ''google_drive_upload'', ''google_drive_list'',
      ''google_drive_download'', ''google_drive_share'', ''google_drive_create_folder'',
      ''google_sheets_read'', ''google_sheets_write'', ''google_docs_read'',
      ''google_docs_create'']"


text \<open>The flow invocations recorded in a trace, in order, and the two kinds of event of the
  flow cache: a construction that succeeded, and a read of the environment.\<close>

fun kickoffs :: "event list \<Rightarrow> (flow \<times> inputs) list" where
  "kickoffs [] = []"
| "kickoffs (Kickoff f i # es) = (f, i) # kickoffs es"
| "kickoffs (e # es) = kickoffs es"

fun is_creation :: "event \<Rightarrow> bool" where
  "is_creation (Construct n k None) = True"
| "is_creation e = False"

fun is_cache_event :: "event \<Rightarrow> bool" where
  "is_cache_event (Kickoff f i) = False"
| "is_cache_event e = True"

text \<open>
  Two concrete environments for the instances below: in \<open>demo_ext\<close> the API key is set, the
  flow is constructed without error and answers every query with a string; in \<open>no_key_ext\<close> the
  API key is absent.
\<close>

definition demo_ext :: ext where
  "demo_ext =
     \<lparr>os_getenv = (\<lambda>h k. if k = ''OPENAI_API_KEY'' then Some ''sk-test'' else None),
      flow_init = (\<lambda>h n k. None),
      flow_kickoff = (\<lambda>h f i. Inr (PStr (''done: '' @ user_query i))),
      elapsed_seconds = (\<lambda>h. ''0.5''),
      utcnow_isoformat = (\<lambda>h. ''2024-01-01T00:00:00''),
      format_exc = (\<lambda>e. ''Traceback (most recent call last): '' @ exn_str e)\<rparr>"


definition demo_request :: ToolExecuteRequest where
  "demo_request = \<lparr>toolId = ''gmail_read'', params = [], userQuery = None\<rparr>"


text \<open>
  The invariant of the flow cache: as long as the cache is empty no construction has succeeded,
  and once it holds a handle exactly one has.
\<close>

definition cache_inv :: "state \<Rightarrow> bool" where
  "cache_inv s =
     (case flow_cache s cache_key of
        None \<Rightarrow> filter is_creation (trace s) = []
      | Some f \<Rightarrow> length (filter is_creation (trace s)) = 1)"





section \<open>Properties of the result normaliser\<close>

text \<open>
  C9. The result normaliser is idempotent: a mapping is returned as it is, and since every
  result of \<open>parse_crewai_result\<close> is a mapping, normalising a normalised value changes nothing.
\<close>

theorem parse_crewai_result_idempotent:
  "parse_crewai_result (PDict d) = d \<and>
   parse_crewai_result (PDict (parse_crewai_result x)) = parse_crewai_result x"
  by (simp add: parse_crewai_result_def is_str_def hasattr_def is_dict_def dict_items_def)

section \<open>Properties of the query synthesiser\<close>


text \<open>Every sentence of a dedicated rule starts as its template does.\<close>

lemma f_string_Inr: "f_string vs t = Inr q \<Longrightarrow> q = t"
  by (simp add: f_string_def split: if_splits)

lemma bindE:
  assumes "(case m of Inl e \<Rightarrow> Inl e | Inr x \<Rightarrow> k x) = Inr r"
  obtains x where "m = Inr x" and "k x = Inr r"
  using assms by (cases m) auto

lemma append_field_head:
  "append_field q pre v post = Inr r \<Longrightarrow> take 1 q = [c] \<Longrightarrow> take 1 r = [c]"
  by (cases q) (auto simp: append_field_def fmt_def split: if_splits)

lemma opt_field_head:
  "(if b then append_field q pre v post else Inr q) = Inr r \<Longrightarrow> take 1 q = [c]
     \<Longrightarrow> take 1 r = [c]"
  by (auto split: if_splits dest: append_field_head)

lemma body_field_head:
  "(if truthy body
    then (case py_len body of
            Inl e \<Rightarrow> Inl e
          | Inr n \<Rightarrow>
              if n > 100
              then (case py_slice_to 100 body of
                      Inl e \<Rightarrow> Inl e
                    | Inr b \<Rightarrow> append_field q p1 b p2)
              else append_field q p1 body [])
    else Inr q) = Inr r \<Longrightarrow> take 1 q = [c] \<Longrightarrow> take 1 r = [c]"
  by (auto split: if_splits sum.splits dest: append_field_head)

lemma attendees_head:
  "(if truthy a
    then (if is_list a
          then (case str_join sep (list_items a) of
                  Inl e \<Rightarrow> Inl e
                | Inr joined \<Rightarrow> Inr (q @ pre @ joined))
          else append_field q pre a [])
    else Inr q) = Inr r \<Longrightarrow> take 1 q = [c] \<Longrightarrow> take 1 r = [c]"
  by (cases q) (auto split: if_splits sum.splits dest: append_field_head)

lemma gmail_send_query_head:
  assumes "gmail_send_query ps = Inr q"
  shows "take 1 q = ''S''"
  using assms unfolding gmail_send_query_def Let_def
  apply (elim bindE)
  apply (drule f_string_Inr)
  apply (subgoal_tac "take 1 query = ''S''")
   prefer 2 apply simp
  apply (thin_tac "query = _")
  apply (drule (1) body_field_head)
  apply (drule (1) opt_field_head)
  apply (drule (1) opt_field_head)
  apply assumption
  done

lemma gmail_reply_query_head:
  assumes "gmail_reply_query ps = Inr q"
  shows "take 1 q = ''R''"
  using assms unfolding gmail_reply_query_def Let_def
  apply (elim bindE)
  apply (drule f_string_Inr)
  apply (subgoal_tac "take 1 query = ''R''")
   prefer 2 apply simp
  apply (thin_tac "query = _")
  apply (drule (1) append_field_head)
  apply assumption
  done

lemma calendar_create_query_head:
  assumes "calendar_create_query ps = Inr q"
  shows "take 1 q = ''C''"
  using assms unfolding calendar_create_query_def Let_def
  apply (elim bindE)
  apply (drule f_string_Inr)
  apply (subgoal_tac "take 1 query = ''C''")
   prefer 2 apply simp
  apply (thin_tac "query = _")
  apply (drule (1) opt_field_head)
  apply (drule (1) opt_field_head)
  apply (drule (1) opt_field_head)
  apply (drule (1) attendees_head)
  apply assumption
  done

lemma ruled_tools_cases:
  assumes "t \<in> set ruled_tools"
  shows "t = ''google_calendar_create'' \<or> t = ''google_calendar_list'' \<or>
     t = ''google_calendar_get'' \<or> t = ''google_calendar_update'' \<or>
     t = ''google_calendar_delete'' \<or> t = ''gmail_send'' \<or> t = ''gmail_read'' \<or>
     t = ''gmail_search'' \<or> t = ''gmail_reply'' \<or> t = ''google_drive_upload'' \<or>
     t = ''google_drive_list'' \<or> t = ''google_drive_download'' \<or>
     t = ''google_drive_share'' \<or> t = ''google_drive_create_folder'' \<or>
     t = ''google_sheets_read'' \<or> t = ''google_sheets_write'' \<or>
     t = ''google_docs_read'' \<or> t = ''google_docs_create''"
  using assms by (simp add: ruled_tools_def)

lemma ruled_query_head:
  assumes "t \<in> set ruled_tools" and "convert_params_to_user_query t ps = Inr q"
  shows "take 1 q \<noteq> ''E''"
  using ruled_tools_cases [OF assms(1)] assms(2)
  apply (elim disjE)
  apply (simp_all add: convert_params_to_user_query_def Let_def f_string_def split: if_splits)
  apply (auto dest: calendar_create_query_head gmail_send_query_head gmail_reply_query_head)
  done

text \<open>
  C6, as stated, fails: \<^verbatim>\<open>gmail_draft\<close> is a key of the registry, and the synthesiser answers it
  with the generic fallback sentence.
\<close>

theorem registered_tool_gets_fallback:
  "map_of TOOL_TO_CREW_MAPPING ''gmail_draft'' = Some ''EMAIL_MANAGEMENT_FLOW'' \<and>
   convert_params_to_user_query ''gmail_draft'' [] = Inr ''Execute gmail_draft with parameters: {}''"
  by (simp add: TOOL_TO_CREW_MAPPING_def convert_params_to_user_query_def dumps_def)

text \<open>
  C6, amended. The synthesiser has a dedicated rule for eighteen of the twenty-seven registry
  identifiers (\<open>ruled_tools\<close>); the fallback sentence is produced exactly for the identifiers
  without a rule, which are the identifiers outside the registry and the nine registry
  identifiers listed (and there exactly when \<^verbatim>\<open>json.dumps\<close> can convert the parameters).
\<close>

theorem fallback_iff_no_rule:
  "(convert_params_to_user_query t ps = Inr (fallback_query t ps))
     = (t \<notin> set ruled_tools \<and> renders (PDict ps)) \<and>
   set ruled_tools \<subseteq> set tool_ids \<and> distinct ruled_tools \<and> length ruled_tools = 18 \<and>
   length tool_ids = 27 \<and>
   filter (\<lambda>t. t \<notin> set ruled_tools) tool_ids =
     [''google_calendar_quick_add'', ''google_calendar_freebusy'', ''gmail_draft'',
      ''gmail_labels'', ''google_drive_move'', ''google_drive_delete'',
      ''google_sheets_update'', ''google_sheets_append'', ''google_docs_write'']"
proof -
  have "(convert_params_to_user_query t ps = Inr (fallback_query t ps))
          = (t \<notin> set ruled_tools \<and> renders (PDict ps))"
  proof (cases "t \<in> set ruled_tools")
    case True
    have "take 1 (fallback_query t ps) = ''E''" by (simp add: fallback_query_def)
    then have "convert_params_to_user_query t ps \<noteq> Inr (fallback_query t ps)"
      using ruled_query_head [OF True] by blast
    with True show ?thesis by simp
  next
    case False
    from False show ?thesis
      by (simp add: ruled_tools_def convert_params_to_user_query_def dumps_def fallback_query_def
            int_limit_error_def)
  qed
  moreover have "set ruled_tools \<subseteq> set tool_ids"
    by (simp add: ruled_tools_def tool_ids_def TOOL_TO_CREW_MAPPING_def)
  moreover have "distinct ruled_tools" by (simp add: ruled_tools_def)
  moreover have "length ruled_tools = 18" by (simp add: ruled_tools_def)
  moreover have "length tool_ids = 27" by (simp add: tool_ids_def TOOL_TO_CREW_MAPPING_def)
  moreover have "filter (\<lambda>t. t \<notin> set ruled_tools) tool_ids =
     [''google_calendar_quick_add'', ''google_calendar_freebusy'', ''gmail_draft'',
      ''gmail_labels'', ''google_drive_move'', ''google_drive_delete'',
      ''google_sheets_update'', ''google_sheets_append'', ''google_docs_write'']"
    by (simp add: ruled_tools_def tool_ids_def TOOL_TO_CREW_MAPPING_def)
  ultimately show ?thesis by blast
qed



lemma renders_lookup:
  "list_all (\<lambda>kv. renders (snd kv)) d \<Longrightarrow> map_of d k = Some v \<Longrightarrow> renders v"
  by (induction d) (auto split: if_splits)

lemma renders_dict_get:
  assumes "renders (PDict d)" and "renders dflt"
  shows "renders (dict_get d k dflt)"
  using assms renders_lookup [of d k]
  by (cases "map_of d k") (auto simp: dict_get_def)

lemma fmt_renders: "renders v \<Longrightarrow> fmt v = Inr (py_str v)"
  by (simp add: fmt_def)

lemma append_field_renders:
  "renders v \<Longrightarrow> append_field q pre v post = Inr (q @ pre @ py_str v @ post)"
  by (simp add: append_field_def fmt_def)







text \<open>
  The body clause of \<^verbatim>\<open>gmail_send\<close>: a string body longer than 100 characters appears as its
  first 100 characters followed by the ellipsis marker, a shorter one as it is, an empty one
  not at all. A body of 150 characters is cut to 100.
\<close>

lemma gmail_send_body_clause:
  assumes "dict_get ps ''body'' (PStr []) = PStr b" and "renders (PDict ps)"
  shows "gmail_send_query ps =
     Inr (''Send email to '' @ py_str (dict_get ps ''to'' (PStr [])) @ '' with subject ''
          @ [squote] @ py_str (dict_get ps ''subject'' (PStr [])) @ [squote]
          @ (if b = [] then [] else '' and body: ''
               @ (if 100 < length b then take 100 b @ ''...'' else b))
          @ (if truthy (dict_get ps ''cc'' PNone)
             then '', CC: '' @ py_str (dict_get ps ''cc'' PNone) else [])
          @ (if truthy (dict_get ps ''bcc'' PNone)
             then '', BCC: '' @ py_str (dict_get ps ''bcc'' PNone) else []))"
proof -
  have r: "renders (dict_get ps ''to'' (PStr []))" "renders (dict_get ps ''subject'' (PStr []))"
    "renders (dict_get ps ''cc'' PNone)" "renders (dict_get ps ''bcc'' PNone)"
    using assms(2) by (auto intro!: renders_dict_get)
  show ?thesis
    using assms(1) r
    by (simp add: gmail_send_query_def Let_def f_string_def append_field_renders
          del: renders.simps(1))
qed

lemma gmail_send_150:
  "convert_params_to_user_query ''gmail_send'' [(''body'', PStr (replicate 150 CHR ''x''))]
     = Inr (''Send email to  with subject '' @ [squote, squote] @ '' and body: ''
            @ replicate 100 CHR ''x'' @ ''...'')"
proof -
  have "dict_get [(''body'', PStr (replicate 150 CHR ''x''))] ''body'' (PStr [])
          = PStr (replicate 150 CHR ''x'')"
    by (simp add: dict_get_def)
  from gmail_send_body_clause [OF this] show ?thesis
    by (simp add: convert_params_to_user_query_def dict_get_def)
qed

text \<open>
  C7 fails on \<^verbatim>\<open>gmail_reply\<close>: the reply body is followed by the ellipsis marker whatever its
  length, here six characters. (\<^verbatim>\<open>gmail_send\<close> appends the marker only to a body longer than 100
  characters.)
\<close>

theorem gmail_reply_short_body_gets_ellipsis:
  "convert_params_to_user_query ''gmail_reply'' [(''reply_body'', PStr ''Thanks'')]
     = Inr (''Reply to email from  with subject '' @ [squote, squote] @ '' and reply: Thanks...'')"
  by (simp add: convert_params_to_user_query_def gmail_reply_query_def dict_get_def
        f_string_def append_field_def fmt_def)


lemma small_int_renders: "\<bar>i\<bar> < 1000 \<Longrightarrow> renders (PInt i)"
proof -
  assume a: "\<bar>i\<bar> < 1000"
  have "(10::int) ^ 3 \<le> 10 ^ int_max_str_digits"
    by (rule power_increasing) (simp_all add: int_max_str_digits_def)
  with a show ?thesis by simp
qed

















section \<open>Properties of the execute endpoint\<close>







lemma get_flow_cached:
  "flow_cache s cache_key = Some f \<Longrightarrow> get_google_suite_flow x s = (Inr f, s)"
  by (simp add: get_google_suite_flow_def)

lemma get_flow_result:
  assumes "get_google_suite_flow x s = (res, s1)"
  shows "\<exists>es. trace s1 = trace s @ es \<and> kickoffs es = [] \<and>
          (case res of
             Inl e \<Rightarrow> flow_cache s1 = flow_cache s \<and> filter is_creation es = []
                       \<and> flow_cache s cache_key = None
           | Inr f \<Rightarrow> flow_cache s1 cache_key = Some f \<and>
               (if flow_cache s cache_key = None
                then filter is_creation es = [last es] \<and> flow_cache s1 = (flow_cache s)(cache_key \<mapsto> f)
                else s1 = s \<and> es = []))"
  using assms
  by (auto simp: get_google_suite_flow_def Let_def split: option.splits if_splits)

text \<open>The state after a request whose tool is registered: what the try block leaves.\<close>

lemma execute_state:
  assumes "map_of TOOL_TO_CREW_MAPPING (toolId r) = Some crew"
  shows "snd (execute_google_suite_tool x r s) =
    (case resolve_user_query r of
       Inl e \<Rightarrow> s
     | Inr uq \<Rightarrow>
        (case get_google_suite_flow x s of
           (Inl e, s1) \<Rightarrow> s1
         | (Inr f, s1) \<Rightarrow>
             s1\<lparr>trace := trace s1 @ [Kickoff f \<lparr>user_query = uq, crew_name = crew, flow_name = crew\<rparr>]\<rparr>))"
  using assms
  by (simp add: execute_google_suite_tool_def execute_try_def Let_def
           split: sum.split prod.split exn.split)

lemma execute_state_unknown:
  assumes "map_of TOOL_TO_CREW_MAPPING (toolId r) = None"
  shows "snd (execute_google_suite_tool x r s) = s"
  using assms
  by (simp add: execute_google_suite_tool_def execute_try_def Let_def)




lemma demo_request_registered:
  "map_of TOOL_TO_CREW_MAPPING (toolId demo_request) = Some ''EMAIL_MANAGEMENT_FLOW''"
  by (simp add: demo_request_def TOOL_TO_CREW_MAPPING_def)

lemma demo_request_query:
  "resolve_user_query demo_request
     = Inr ''Read unread emails from the last 24 hours, maximum 10 results''"
  by (simp add: demo_request_def resolve_user_query_def convert_params_to_user_query_def
        dict_get_def string_of_int_def hexdigit_def f_string_def small_int_renders
        del: renders.simps(1))

lemma demo_flow:
  "get_google_suite_flow demo_ext initial_state =
     (Inr (GoogleSuiteFlow 1 ''Google Suite Flow'' ''sk-test''),
      \<lparr>flow_cache = [cache_key \<mapsto> GoogleSuiteFlow 1 ''Google Suite Flow'' ''sk-test''],
       trace = [Getenv ''OPENAI_API_KEY'', Construct ''Google Suite Flow'' ''sk-test'' None]\<rparr>)"
  by (simp add: get_google_suite_flow_def demo_ext_def initial_state_def Let_def)








section \<open>Properties of the flow cache\<close>

lemma handle_execute_state:
  "snd (handle x (PostExecute q) s) = snd (execute_google_suite_tool x q s)"
  by (simp split: prod.split)

lemma handle_keeps_cache:
  assumes "flow_cache s cache_key = Some f"
  shows "flow_cache (snd (handle x r s)) = flow_cache s \<and>
         filter is_cache_event (trace (snd (handle x r s))) = filter is_cache_event (trace s)"
proof (cases r)
  case GetHealth
  then show ?thesis by simp
next
  case GetToolList
  then show ?thesis by simp
next
  case (PostExecute q)
  have "flow_cache (snd (execute_google_suite_tool x q s)) = flow_cache s \<and>
        filter is_cache_event (trace (snd (execute_google_suite_tool x q s)))
          = filter is_cache_event (trace s)"
  proof (cases "map_of TOOL_TO_CREW_MAPPING (toolId q)")
    case None
    then show ?thesis by (simp add: execute_state_unknown)
  next
    case (Some crew)
    show ?thesis
      by (simp add: execute_state [OF Some] get_flow_cached [OF assms] split: sum.split)
  qed
  then show ?thesis using PostExecute by (simp only: handle_execute_state)
qed

lemma serve_keeps_cache:
  assumes "flow_cache s cache_key = Some f"
  shows "flow_cache (serve x rs s) = flow_cache s \<and>
         filter is_cache_event (trace (serve x rs s)) = filter is_cache_event (trace s)"
  using assms
proof (induction rs arbitrary: s)
  case Nil
  then show ?case by simp
next
  case (Cons r rs)
  from handle_keeps_cache [OF Cons.prems, of x r]
  have h: "flow_cache (snd (handle x r s)) = flow_cache s"
    "filter is_cache_event (trace (snd (handle x r s))) = filter is_cache_event (trace s)"
    by simp_all
  then have "flow_cache (snd (handle x r s)) cache_key = Some f" using Cons.prems by simp
  from Cons.IH [OF this] h show ?case by simp
qed

lemma get_flow_inv:
  assumes "cache_inv s" and "get_google_suite_flow x s = (res, s1)"
  shows "cache_inv s1"
proof -
  from get_flow_result [OF assms(2)] obtain es where
    es: "trace s1 = trace s @ es"
      "case res of
         Inl e \<Rightarrow> flow_cache s1 = flow_cache s \<and> filter is_creation es = []
                   \<and> flow_cache s cache_key = None
       | Inr f \<Rightarrow> flow_cache s1 cache_key = Some f \<and>
           (if flow_cache s cache_key = None
            then filter is_creation es = [last es] \<and> flow_cache s1 = (flow_cache s)(cache_key \<mapsto> f)
            else s1 = s \<and> es = [])"
    by blast
  show ?thesis
  proof (cases res)
    case (Inl e)
    with es assms(1) show ?thesis by (simp add: cache_inv_def)
  next
    case (Inr f)
    with es assms(1) show ?thesis
      by (cases "flow_cache s cache_key") (auto simp: cache_inv_def)
  qed
qed

lemma cache_inv_kickoff:
  "cache_inv (s\<lparr>trace := trace s @ [Kickoff f i]\<rparr>) = cache_inv s"
  by (simp add: cache_inv_def split: option.split)

lemma handle_inv:
  assumes "cache_inv s"
  shows "cache_inv (snd (handle x r s))"
proof (cases r)
  case GetHealth
  then show ?thesis using assms by simp
next
  case GetToolList
  then show ?thesis using assms by simp
next
  case (PostExecute q)
  have "cache_inv (snd (execute_google_suite_tool x q s))"
  proof (cases "map_of TOOL_TO_CREW_MAPPING (toolId q)")
    case None
    then show ?thesis using assms by (simp add: execute_state_unknown)
  next
    case (Some crew)
    obtain res s1 where g: "get_google_suite_flow x s = (res, s1)"
      by (cases "get_google_suite_flow x s")
    from get_flow_inv [OF assms g] have "cache_inv s1" .
    then show ?thesis using assms g
      by (simp add: execute_state [OF Some] cache_inv_kickoff split: sum.split)
  qed
  then show ?thesis using PostExecute by (simp only: handle_execute_state)
qed

lemma serve_inv: "cache_inv s \<Longrightarrow> cache_inv (serve x rs s)"
  by (induction rs arbitrary: s) (simp_all add: handle_inv)

text \<open>
  C5. Once \<open>get_google_suite_flow\<close> has returned a handle, whatever requests are served
  afterwards, the cache is the same, a further call returns the same handle and leaves the
  state as it is, and the trace has gained no construction and no read of the environment.
  From the initial state, at most one construction ever succeeds.
\<close>

theorem flow_created_at_most_once:
  "(get_google_suite_flow x s = (Inr f, s1) \<longrightarrow>
      flow_cache (serve x rs s1) = flow_cache s1 \<and>
      get_google_suite_flow x (serve x rs s1) = (Inr f, serve x rs s1) \<and>
      filter is_cache_event (trace (serve x rs s1)) = filter is_cache_event (trace s1))
   \<and> length (filter is_creation (trace (serve x rs initial_state))) \<le> 1"
proof -
  have a: "flow_cache (serve x rs s1) = flow_cache s1 \<and>
      get_google_suite_flow x (serve x rs s1) = (Inr f, serve x rs s1) \<and>
      filter is_cache_event (trace (serve x rs s1)) = filter is_cache_event (trace s1)"
    if g: "get_google_suite_flow x s = (Inr f, s1)"
  proof -
    from get_flow_result [OF g] have c: "flow_cache s1 cache_key = Some f" by auto
    from serve_keeps_cache [OF c, of x rs]
    have k: "flow_cache (serve x rs s1) = flow_cache s1"
      "filter is_cache_event (trace (serve x rs s1)) = filter is_cache_event (trace s1)"
      by simp_all
    from k(1) c have "flow_cache (serve x rs s1) cache_key = Some f" by simp
    from get_flow_cached [OF this] k show ?thesis by simp
  qed
  have "cache_inv initial_state" by (simp add: cache_inv_def initial_state_def)
  then have "cache_inv (serve x rs initial_state)" by (rule serve_inv)
  then have b: "length (filter is_creation (trace (serve x rs initial_state))) \<le> 1"
    by (simp add: cache_inv_def split: option.splits)
  from a b show ?thesis by blast
qed

lemma demo_serve:
  "serve demo_ext [PostExecute demo_request, GetHealth]
     \<lparr>flow_cache = [cache_key \<mapsto> GoogleSuiteFlow 1 ''Google Suite Flow'' ''sk-test''],
      trace = [Getenv ''OPENAI_API_KEY'', Construct ''Google Suite Flow'' ''sk-test'' None]\<rparr>
   = \<lparr>flow_cache = [cache_key \<mapsto> GoogleSuiteFlow 1 ''Google Suite Flow'' ''sk-test''],
      trace = [Getenv ''OPENAI_API_KEY'', Construct ''Google Suite Flow'' ''sk-test'' None,
        Kickoff (GoogleSuiteFlow 1 ''Google Suite Flow'' ''sk-test'')
          \<lparr>user_query = ''Read unread emails from the last 24 hours, maximum 10 results'',
           crew_name = ''EMAIL_MANAGEMENT_FLOW'', flow_name = ''EMAIL_MANAGEMENT_FLOW''\<rparr>]\<rparr>"
  by (simp only: serve.simps handle_execute_state handle.simps(1) snd_conv)
     (simp add: execute_state [OF demo_request_registered] demo_request_query get_flow_cached)

theorem flow_created_at_most_once_witness:
  "get_google_suite_flow demo_ext initial_state =
     (Inr (GoogleSuiteFlow 1 ''Google Suite Flow'' ''sk-test''),
      \<lparr>flow_cache = [cache_key \<mapsto> GoogleSuiteFlow 1 ''Google Suite Flow'' ''sk-test''],
       trace = [Getenv ''OPENAI_API_KEY'', Construct ''Google Suite Flow'' ''sk-test'' None]\<rparr>) \<and>
   get_google_suite_flow demo_ext
     (serve demo_ext [PostExecute demo_request, GetHealth]
        \<lparr>flow_cache = [cache_key \<mapsto> GoogleSuiteFlow 1 ''Google Suite Flow'' ''sk-test''],
         trace = [Getenv ''OPENAI_API_KEY'', Construct ''Google Suite Flow'' ''sk-test'' None]\<rparr>)
   = (Inr (GoogleSuiteFlow 1 ''Google Suite Flow'' ''sk-test''),
      \<lparr>flow_cache = [cache_key \<mapsto> GoogleSuiteFlow 1 ''Google Suite Flow'' ''sk-test''],
       trace = [Getenv ''OPENAI_API_KEY'', Construct ''Google Suite Flow'' ''sk-test'' None,
        Kickoff (GoogleSuiteFlow 1 ''Google Suite Flow'' ''sk-test'')
          \<lparr>user_query = ''Read unread emails from the last 24 hours, maximum 10 results'',
           crew_name = ''EMAIL_MANAGEMENT_FLOW'', flow_name = ''EMAIL_MANAGEMENT_FLOW''\<rparr>]\<rparr>)"
  using demo_flow
    flow_created_at_most_once [of demo_ext initial_state
      "GoogleSuiteFlow 1 ''Google Suite Flow'' ''sk-test''"
      "\<lparr>flow_cache = [cache_key \<mapsto> GoogleSuiteFlow 1 ''Google Suite Flow'' ''sk-test''],
        trace = [Getenv ''OPENAI_API_KEY'', Construct ''Google Suite Flow'' ''sk-test'' None]\<rparr>"
      "[PostExecute demo_request, GetHealth]"]
  by (auto simp only: demo_serve)

end
